theory Spec2Isabelle
  imports Complex_Main "HOL-Library.Word"
begin

section \<open>The values the components handle\<close>

subsection \<open>Strings\<close>

text \<open>
  A string of the program is a sequence of 16-bit code units. \<open>str\<close> turns a literal of
  the source (all of them ASCII) into its code units.
\<close>

type_synonym code_unit = "16 word"
type_synonym jsstring = "code_unit list"

definition str :: "string \<Rightarrow> jsstring" where
  "str s = map (\<lambda>c. of_nat (of_char c)) s"

text \<open>Truthiness of a string: every string but the empty one.\<close>

definition truthy_string :: "jsstring \<Rightarrow> bool" where
  "truthy_string s = (s \<noteq> [])"

subsection \<open>Numbers\<close>

text \<open>
  A number of the program is NaN, an infinity, the negative zero or a finite value. The
  finite values are kept exact (a rational): no claim computes with them, the components
  only store, compare with zero and print them.
\<close>

datatype number = NaN | PosInfinity | NegInfinity | NegZero | Num rat

text \<open>Truthiness of a number: false for \<open>0\<close>, \<open>-0\<close> and \<open>NaN\<close>.\<close>

definition truthy_number :: "number \<Rightarrow> bool" where
  "truthy_number n = (n \<noteq> NaN \<and> n \<noteq> NegZero \<and> n \<noteq> Num 0)"

subsection \<open>\<open>parseInt\<close> with no radix\<close>

definition StrWhiteSpaceChar :: "code_unit \<Rightarrow> bool" where
  "StrWhiteSpaceChar c =
     (c \<in> {0x09, 0x0A, 0x0B, 0x0C, 0x0D, 0x20, 0xA0, 0x1680, 0x2028, 0x2029,
            0x202F, 0x205F, 0x3000, 0xFEFF}
      \<or> (0x2000 \<le> c \<and> c \<le> 0x200A))"

definition digit_value :: "code_unit \<Rightarrow> nat option" where
  "digit_value c =
     (if 0x30 \<le> c \<and> c \<le> 0x39 then Some (unat c - 0x30)
      else if 0x61 \<le> c \<and> c \<le> 0x7A then Some (unat c - 0x61 + 10)
      else if 0x41 \<le> c \<and> c \<le> 0x5A then Some (unat c - 0x41 + 10)
      else None)"

definition radix_digit :: "nat \<Rightarrow> code_unit \<Rightarrow> bool" where
  "radix_digit R c = (case digit_value c of None \<Rightarrow> False | Some v \<Rightarrow> v < R)"

definition digits_value :: "nat \<Rightarrow> jsstring \<Rightarrow> nat" where
  "digits_value R Z =
     foldl (\<lambda>a c. a * R + (case digit_value c of None \<Rightarrow> 0 | Some v \<Rightarrow> v)) 0 Z"

text \<open>
  The steps of \<open>parseInt(string)\<close>: leading white space is dropped, then a sign, then a
  \<open>0x\<close> or \<open>0X\<close> prefix (which selects radix 16), then the longest run of digits of the
  radix is read; no digit gives \<open>NaN\<close>. The value is kept exact.
\<close>

definition parseInt :: "jsstring \<Rightarrow> number" where
  "parseInt inputString =
     (let S = dropWhile StrWhiteSpaceChar inputString;
          negative = (S \<noteq> [] \<and> hd S = 0x2D);
          S1 = (if S \<noteq> [] \<and> (hd S = 0x2D \<or> hd S = 0x2B) then tl S else S);
          hex = (2 \<le> length S1 \<and> hd S1 = 0x30 \<and> (S1 ! 1 = 0x78 \<or> S1 ! 1 = 0x58));
          R = (if hex then 16 else 10);
          S2 = (if hex then drop 2 S1 else S1);
          Z = takeWhile (radix_digit R) S2
      in if Z = [] then NaN
         else if negative \<and> digits_value R Z = 0 then NegZero
         else if negative then Num (- of_nat (digits_value R Z))
         else Num (of_nat (digits_value R Z)))"

subsection \<open>\<open>encodeURIComponent\<close>\<close>

definition uriUnreserved :: "code_unit \<Rightarrow> bool" where
  "uriUnreserved c =
     ((0x41 \<le> c \<and> c \<le> 0x5A) \<or> (0x61 \<le> c \<and> c \<le> 0x7A) \<or> (0x30 \<le> c \<and> c \<le> 0x39)
      \<or> c \<in> {0x2D, 0x5F, 0x2E, 0x21, 0x7E, 0x2A, 0x27, 0x28, 0x29})"

definition high_surrogate :: "code_unit \<Rightarrow> bool" where
  "high_surrogate c = (0xD800 \<le> c \<and> c \<le> 0xDBFF)"

definition low_surrogate :: "code_unit \<Rightarrow> bool" where
  "low_surrogate c = (0xDC00 \<le> c \<and> c \<le> 0xDFFF)"

definition utf8_octets :: "nat \<Rightarrow> nat list" where
  "utf8_octets v =
     (if v < 0x80 then [v]
      else if v < 0x800 then [0xC0 + v div 0x40, 0x80 + v mod 0x40]
      else if v < 0x10000 then
        [0xE0 + v div 0x1000, 0x80 + (v div 0x40) mod 0x40, 0x80 + v mod 0x40]
      else
        [0xF0 + v div 0x40000, 0x80 + (v div 0x1000) mod 0x40,
         0x80 + (v div 0x40) mod 0x40, 0x80 + v mod 0x40])"

definition hex_digit :: "nat \<Rightarrow> code_unit" where
  "hex_digit n = (if n < 10 then of_nat (0x30 + n) else of_nat (0x41 + (n - 10)))"

definition percent_escape :: "nat \<Rightarrow> jsstring" where
  "percent_escape v =
     concat (map (\<lambda>b. [0x25, hex_digit (b div 16), hex_digit (b mod 16)]) (utf8_octets v))"

definition surrogate_pair :: "code_unit \<Rightarrow> code_unit \<Rightarrow> nat" where
  "surrogate_pair hi lo = (unat hi - 0xD800) * 0x400 + (unat lo - 0xDC00) + 0x10000"

text \<open>
  \<open>None\<close> is the URIError that \<open>encodeURIComponent\<close> throws on a surrogate that has no
  partner.
\<close>

fun encodeURIComponent :: "jsstring \<Rightarrow> jsstring option" where
  "encodeURIComponent [] = Some []"
| "encodeURIComponent (c # cs) =
     (if uriUnreserved c then map_option (\<lambda>r. c # r) (encodeURIComponent cs)
      else if low_surrogate c then None
      else if \<not> high_surrogate c then
        map_option (\<lambda>r. percent_escape (unat c) @ r) (encodeURIComponent cs)
      else (case cs of
              [] \<Rightarrow> None
            | k # rest \<Rightarrow>
                if \<not> low_surrogate k then None
                else map_option (\<lambda>r. percent_escape (surrogate_pair c k) @ r)
                       (encodeURIComponent rest)))"

subsection \<open>Arrays\<close>

text \<open>\<open>array.slice(start)\<close>: a negative start counts from the end, and is clamped.\<close>

definition slice :: "int \<Rightarrow> 'a list \<Rightarrow> 'a list" where
  "slice start xs =
     (let len = int (length xs);
          k = (if start < 0 then max (len + start) 0 else min start len)
      in drop (nat k) xs)"

text \<open>\<open>array[idx]\<close>: \<open>None\<close> is the \<open>undefined\<close> read beyond the end.\<close>

definition index :: "'a list \<Rightarrow> nat \<Rightarrow> 'a option" where
  "index xs i = (if i < length xs then Some (xs ! i) else None)"

text \<open>\<open>array.map((val, idx) => f(val, idx))\<close>.\<close>

definition map_idx :: "('a \<Rightarrow> nat \<Rightarrow> 'b) \<Rightarrow> 'a list \<Rightarrow> 'b list" where
  "map_idx f xs = map (\<lambda>(val, idx). f val idx) (zip xs [0..<length xs])"

subsection \<open>Requests\<close>

text \<open>
  What an awaited \<open>fetch(...)\<close> followed by \<open>response.json()\<close> comes to: the promise is
  rejected (no connection, or a body that is not JSON), or it yields the parsed body.
\<close>

datatype 'a outcome = Rejected | Resolved 'a

text \<open>What a JSX expression \<open>{guard && element}\<close> hands to the renderer: \<open>null\<close> or
  \<open>false\<close> (nothing is drawn), the falsy number or string of the guard itself (which is
  drawn as text), or the element.\<close>

datatype 'a child = Nothing | BareNumber number | BareText jsstring | Element 'a

section \<open>The prediction dashboard (\<open>src/components/dashboard.tsx\<close>)\<close>

subsection \<open>Data\<close>

text \<open>
  \<open>FormData\<close> holds the three strings of the form. \<open>other\<close> holds the properties that
  a computed key \<open>[name]: value\<close> adds beside them.
\<close>

record FormData =
  name :: jsstring
  year :: jsstring
  miles :: jsstring
  other :: "jsstring \<rightharpoonup> jsstring"

text \<open>\<open>PredictionData\<close>: an entry of the history (fields \<open>name\<close>, \<open>year\<close>, \<open>miles\<close>,
  \<open>price\<close>).\<close>

record PredictionData =
  pd_name :: jsstring
  pd_year :: number
  pd_miles :: number
  price :: number

text \<open>\<open>PredictionResponse\<close>: the body of a \<open>/predict\<close> answer; \<open>resp_error\<close> is its
  optional field \<open>error\<close>.\<close>

record PredictionResponse =
  predicted_price :: number
  success :: bool
  resp_error :: "jsstring option"

record CarsResponse =
  cars :: "jsstring list"
  total :: number

text \<open>The object that \<open>handleSubmit\<close> serialises as the request body (fields \<open>name\<close>,
  \<open>year\<close>, \<open>miles\<close>).\<close>

record PredictBody =
  body_name :: jsstring
  body_year :: number
  body_miles :: number

record PredictRequest =
  url :: jsstring
  http_method :: jsstring
  headers :: "(jsstring \<times> jsstring) list"
  body :: PredictBody

text \<open>The state hooks of \<open>PricePredictionDashboard\<close>, one field each.\<close>

record Dashboard =
  formData :: FormData
  availableCars :: "jsstring list"
  searchTerm :: jsstring
  isSearching :: bool
  prediction :: "number option"
  loading :: bool
  error :: "jsstring option"
  predictions :: "PredictionData list"

text \<open>The initial state; \<open>thisYear\<close> is \<open>String(new Date().getFullYear())\<close>.\<close>

definition initial :: "jsstring \<Rightarrow> Dashboard" where
  "initial thisYear =
     \<lparr>formData = \<lparr>name = [], year = thisYear, miles = str ''0'', other = Map.empty\<rparr>,
      availableCars = [], searchTerm = [], isSearching = False, prediction = None,
      loading = False, error = None, predictions = []\<rparr>"

subsection \<open>The car search\<close>

text \<open>The URL that \<open>fetchCars\<close> builds; \<open>None\<close> when building it throws.\<close>

definition fetchCars_url :: "jsstring \<Rightarrow> jsstring option" where
  "fetchCars_url q =
     (if truthy_string q
      then map_option (\<lambda>e. str ''http://localhost:5000/cars'' @ str ''?search='' @ e)
             (encodeURIComponent q)
      else Some (str ''http://localhost:5000/cars'' @ []))"

text \<open>The rest of the \<open>try\<close> block after the awaits, and the \<open>catch\<close> block.\<close>

definition fetchCars_settle :: "CarsResponse outcome \<Rightarrow> Dashboard \<Rightarrow> Dashboard" where
  "fetchCars_settle r s =
     (case r of
        Resolved data \<Rightarrow> s\<lparr>availableCars := cars data, error := None\<rparr>
      | Rejected \<Rightarrow> s\<lparr>error := Some (str ''Failed to load car models''), availableCars := []\<rparr>)"

text \<open>
  \<open>fetchCars\<close> for the search term \<open>q\<close>; \<open>net\<close> is the backend as the browser
  sees it, from the requested URL to what the awaits give. A throw while the URL is built
  goes to the \<open>catch\<close> block with no request made.
\<close>

definition fetchCars ::
  "(jsstring \<Rightarrow> CarsResponse outcome) \<Rightarrow> jsstring \<Rightarrow> Dashboard \<Rightarrow> Dashboard" where
  "fetchCars net q s =
     (let s1 = s\<lparr>isSearching := True\<rparr>;
          s2 = (case fetchCars_url q of
                  None \<Rightarrow> fetchCars_settle Rejected s1
                | Some u \<Rightarrow> fetchCars_settle (net u) s1)
      in s2\<lparr>isSearching := False\<rparr>)"

subsection \<open>Submitting the form\<close>

definition predict_request :: "FormData \<Rightarrow> PredictRequest" where
  "predict_request fd =
     \<lparr>url = str ''http://localhost:5000/predict'',
      http_method = str ''POST'',
      headers = [(str ''Content-Type'', str ''application/json'')],
      body = \<lparr>body_name = name fd, body_year = parseInt (year fd),
              body_miles = parseInt (miles fd)\<rparr>\<rparr>"

text \<open>\<open>data.error || 'Prediction failed'\<close>: the left operand when it is truthy.\<close>

definition error_or :: "jsstring option \<Rightarrow> jsstring \<Rightarrow> jsstring" where
  "error_or e d = (case e of None \<Rightarrow> d | Some m \<Rightarrow> if truthy_string m then m else d)"

definition handleSubmit_start :: "Dashboard \<Rightarrow> Dashboard" where
  "handleSubmit_start s = s\<lparr>loading := True, error := None\<rparr>"

text \<open>
  What \<open>handleSubmit\<close> does once the awaits are over: \<open>fd\<close> is the \<open>formData\<close> that
  the handler closed over, \<open>s\<close> the state the updates are applied to.
\<close>

definition handleSubmit_settle ::
  "FormData \<Rightarrow> PredictionResponse outcome \<Rightarrow> Dashboard \<Rightarrow> Dashboard" where
  "handleSubmit_settle fd r s =
     (let s1 =
        (case r of
           Resolved data \<Rightarrow>
             if success data then
               s\<lparr>prediction := Some (predicted_price data),
                 predictions :=
                   slice (- 5)
                     (predictions s @
                      [\<lparr>pd_name = name fd, pd_year = parseInt (year fd),
                        pd_miles = parseInt (miles fd), price = predicted_price data\<rparr>])\<rparr>
             else s\<lparr>error := Some (error_or (resp_error data) (str ''Prediction failed''))\<rparr>
         | Rejected \<Rightarrow> s\<lparr>error := Some (str ''Failed to connect to prediction service'')\<rparr>)
      in s1\<lparr>loading := False\<rparr>)"

definition handleSubmit ::
  "(PredictRequest \<Rightarrow> PredictionResponse outcome) \<Rightarrow> Dashboard \<Rightarrow> Dashboard" where
  "handleSubmit net s =
     handleSubmit_settle (formData s) (net (predict_request (formData s)))
       (handleSubmit_start s)"

subsection \<open>Editing the form\<close>

text \<open>\<open>value.replace(/[^0-9]/g, '')\<close>.\<close>

definition strip_non_digits :: "jsstring \<Rightarrow> jsstring" where
  "strip_non_digits v = filter (\<lambda>c. 0x30 \<le> c \<and> c \<le> 0x39) v"

text \<open>\<open>handleInputChange\<close> for an event whose target has the name \<open>nm\<close> and the value
  \<open>v\<close>.\<close>

definition handleInputChange :: "jsstring \<Rightarrow> jsstring \<Rightarrow> Dashboard \<Rightarrow> Dashboard" where
  "handleInputChange nm v s =
     (if nm = str ''year'' then s\<lparr>formData := (formData s)\<lparr>year := strip_non_digits v\<rparr>\<rparr>
      else if nm = str ''miles'' then
        s\<lparr>formData := (formData s)\<lparr>miles := strip_non_digits v\<rparr>\<rparr>
      else if nm = str ''name'' then s\<lparr>formData := (formData s)\<lparr>name := v\<rparr>\<rparr>
      else s\<lparr>formData := (formData s)\<lparr>other := (other (formData s))(nm \<mapsto> v)\<rparr>\<rparr>)"

text \<open>The \<open>onChange\<close> of the car select and of the search box.\<close>

definition selectChange :: "jsstring \<Rightarrow> Dashboard \<Rightarrow> Dashboard" where
  "selectChange v s = s\<lparr>formData := (formData s)\<lparr>name := v\<rparr>\<rparr>"

definition searchChange :: "jsstring \<Rightarrow> Dashboard \<Rightarrow> Dashboard" where
  "searchChange v s = s\<lparr>searchTerm := v\<rparr>"

subsection \<open>What is rendered\<close>

text \<open>
  The block inside the results card: the price line and the three tiles. A line of text is
  kept as its pieces: \<open>Lit\<close> is text of the source, \<open>LocaleString n\<close> is
  \<open>n.toLocaleString()\<close>, the number \<open>n\<close> printed with the separators of the browser's
  locale.
\<close>

datatype piece = Lit jsstring | LocaleString number

record ResultsBlock =
  price_line :: "piece list"
  car_tile :: jsstring
  year_tile :: jsstring
  miles_tile :: "piece list"

record DashboardView =
  submit_disabled :: bool
  submit_label :: jsstring
  car_options :: "jsstring list"
  searching_note :: "unit child"
  error_alert :: "jsstring child"
  results_card :: "ResultsBlock child"
  history_chart :: "PredictionData list child"

text \<open>The render of the component, as far as it depends on the state.\<close>

definition render :: "Dashboard \<Rightarrow> DashboardView" where
  "render s =
     \<lparr>submit_disabled = loading s,
      submit_label = (if loading s then str ''Predicting...'' else str ''Predict Price''),
      car_options = availableCars s,
      searching_note = (if isSearching s then Element () else Nothing),
      error_alert =
        (case error s of
           None \<Rightarrow> Nothing
         | Some m \<Rightarrow> if truthy_string m then Element m else BareText m),
      results_card =
        (case prediction s of
           None \<Rightarrow> Nothing
         | Some p \<Rightarrow>
             if truthy_number p then
               Element
                 \<lparr>price_line = [Lit (str ''Predicted Price: $''), LocaleString p],
                  car_tile = name (formData s),
                  year_tile = year (formData s),
                  miles_tile =
                    [LocaleString (parseInt (miles (formData s))), Lit (str '' miles'')]\<rparr>
             else BareNumber p),
      history_chart =
        (if 0 < length (predictions s) then Element (predictions s) else Nothing)\<rparr>"

section \<open>The analytics page (\<open>src/app/model/page.tsx\<close>)\<close>

text \<open>\<open>ScatterData\<close>: the four parallel arrays of \<open>/prediction-scatter\<close> (fields
  \<open>actual\<close>, \<open>predicted\<close>, \<open>years\<close>, \<open>miles\<close>).\<close>

record ScatterData =
  actual :: "number list"
  predicted :: "number list"
  years :: "number list"
  sd_miles :: "number list"

text \<open>A point of the scatter chart (fields \<open>actual\<close>, \<open>predicted\<close>); a read beyond the
  end of \<open>predicted\<close> leaves \<open>undefined\<close> there.\<close>

record ScatterPoint =
  pt_actual :: number
  pt_predicted :: "number option"

text \<open>
  The state hooks of \<open>ModelAnalyticsDashboard\<close>. The statistics are only stored and
  handed to the charts, so their type \<open>'st\<close> is left open.
\<close>

record 'st Analytics =
  stats :: "'st option"
  scatterData :: "ScatterData option"
  an_loading :: bool
  an_error :: "jsstring option"

definition an_initial :: "'st Analytics" where
  "an_initial = \<lparr>stats = None, scatterData = None, an_loading = True, an_error = None\<rparr>"

text \<open>
  \<open>fetchData\<close> once its awaits are over: both bodies parsed (a body may be \<open>null\<close>), or
  one of the two requests rejected. The \<open>finally\<close> block runs in both cases.
\<close>

definition fetchData_settle ::
  "('st option \<times> ScatterData option) outcome \<Rightarrow> 'st Analytics \<Rightarrow> 'st Analytics" where
  "fetchData_settle r s =
     (let s1 =
        (case r of
           Resolved (statsData, scatter) \<Rightarrow>
             s\<lparr>stats := statsData, scatterData := scatter, an_error := None\<rparr>
         | Rejected \<Rightarrow> s\<lparr>an_error := Some (str ''Failed to load model analytics data'')\<rparr>)
      in s1\<lparr>an_loading := False\<rparr>)"

definition scatterPoints :: "ScatterData \<Rightarrow> ScatterPoint list" where
  "scatterPoints sd =
     map_idx (\<lambda>val idx. \<lparr>pt_actual = val, pt_predicted = index (predicted sd) idx\<rparr>)
       (actual sd)"

datatype 'st AnalyticsView =
  LoadingNote
| DestructiveAlert jsstring
| NoData
| Charts 'st "ScatterPoint list"

text \<open>The page once loading is over and there is no error.\<close>

definition an_page :: "'st Analytics \<Rightarrow> 'st AnalyticsView" where
  "an_page s =
     (case (stats s, scatterData s) of
        (Some st, Some sd) \<Rightarrow> Charts st (scatterPoints sd)
      | _ \<Rightarrow> NoData)"

text \<open>The early returns of the component, in their order, then the page itself.\<close>

definition an_render :: "'st Analytics \<Rightarrow> 'st AnalyticsView" where
  "an_render s =
     (if an_loading s then LoadingNote
      else (case an_error s of
              Some m \<Rightarrow> if truthy_string m then DestructiveAlert m else an_page s
            | None \<Rightarrow> an_page s))"

section \<open>Notions the properties are stated with\<close>

text \<open>The entry that a successful answer \<open>d\<close> adds to the history, for the closed-over
  form data \<open>fd\<close>.\<close>

definition history_entry :: "FormData \<Rightarrow> PredictionResponse \<Rightarrow> PredictionData" where
  "history_entry fd d =
     \<lparr>pd_name = name fd, pd_year = parseInt (year fd), pd_miles = parseInt (miles fd),
      price = predicted_price d\<rparr>"

text \<open>A sequence of submissions, each run to its end before the next: the form data it
  was sent with and the answer it received.\<close>

fun submissions :: "(FormData \<times> PredictionResponse) list \<Rightarrow> Dashboard \<Rightarrow> Dashboard" where
  "submissions [] s = s"
| "submissions (e # es) s =
     submissions es (handleSubmit_settle (fst e) (Resolved (snd e)) (handleSubmit_start s))"

text \<open>A string in which every surrogate has its partner (\<open>isWellFormed\<close>).\<close>

fun isWellFormed :: "jsstring \<Rightarrow> bool" where
  "isWellFormed [] = True"
| "isWellFormed [c] = (\<not> high_surrogate c \<and> \<not> low_surrogate c)"
| "isWellFormed (c # k # rest) =
     (if high_surrogate c then low_surrogate k \<and> isWellFormed rest
      else \<not> low_surrogate c \<and> isWellFormed (k # rest))"

definition decimal_digit :: "code_unit \<Rightarrow> bool" where
  "decimal_digit c = (0x30 \<le> c \<and> c \<le> 0x39)"

section \<open>The rolling history\<close>


lemma slice_last5: "slice (- 5) xs = drop (length xs - 5) xs"
  by (simp add: slice_def Let_def max_def nat_diff_distrib') 

lemma slice_slice: "slice (- 5) (slice (- 5) xs @ ys) = slice (- 5) (xs @ ys)" if "ys \<noteq> []"
proof -
  from that obtain y ys' where ys: "ys = y # ys'" by (cases ys) auto
  have "length xs + length ys' - (length xs - 5 + 4) + (length xs - 5) = length xs + length ys' - 4"
    by arith
  then show ?thesis by (simp add: slice_last5 ys)
qed

lemma settle_success:
  "success d \<Longrightarrow> predictions (handleSubmit_settle fd (Resolved d) (handleSubmit_start s))
     = slice (- 5) (predictions s @ [history_entry fd d])"
  by (simp add: handleSubmit_settle_def handleSubmit_start_def history_entry_def)

lemma submissions_predictions:
  "\<forall>e \<in> set es. success (snd e) \<Longrightarrow> es \<noteq> [] \<Longrightarrow>
   predictions (submissions es s)
     = slice (- 5) (predictions s @ map (\<lambda>e. history_entry (fst e) (snd e)) es)"
proof (induction es arbitrary: s)
  case Nil
  then show ?case by simp
next
  case (Cons e es)
  show ?case
  proof (cases "es = []")
    case True
    with Cons.prems show ?thesis by (simp add: settle_success)
  next
    case False
    with Cons have "predictions (submissions (e # es) s)
      = slice (- 5) (slice (- 5) (predictions s @ [history_entry (fst e) (snd e)])
           @ map (\<lambda>e. history_entry (fst e) (snd e)) es)"
      by (simp add: settle_success)
    also have "\<dots> = slice (- 5) ((predictions s @ [history_entry (fst e) (snd e)])
           @ map (\<lambda>e. history_entry (fst e) (snd e)) es)"
      using False by (intro slice_slice) simp
    finally show ?thesis by simp
  qed
qed

text \<open>
  C2. The history is a rolling list of five: a successful submission appends its entry and
  keeps the last five elements. After any non-empty sequence of successful submissions the
  history is the last five elements of the old history followed by the new entries, its
  most recent entry is last, and a history of at most five entries never grows beyond five.
\<close>

theorem history_rolling:
  assumes "\<forall>e \<in> set es. success (snd e)"
  shows "(es \<noteq> [] \<longrightarrow>
            predictions (submissions es s) =
              (let h = predictions s @ map (\<lambda>e. history_entry (fst e) (snd e)) es
               in drop (length h - 5) h))
         \<and> (length (predictions s) \<le> 5 \<longrightarrow> length (predictions (submissions es s)) \<le> 5)
         \<and> (es \<noteq> [] \<longrightarrow>
              last (predictions (submissions es s)) = history_entry (fst (last es)) (snd (last es)))"
proof (cases "es = []")
  case True
  then show ?thesis by simp
next
  case False
  let ?h = "predictions s @ map (\<lambda>e. history_entry (fst e) (snd e)) es"
  have p: "predictions (submissions es s) = drop (length ?h - 5) ?h"
    using submissions_predictions [OF assms False, of s] by (simp add: slice_last5)
  have ne: "length ?h - 5 < length ?h" using False by (cases es) auto
  have "last (drop (length ?h - 5) ?h) = last ?h"
    using ne by (intro last_drop)
  also have "\<dots> = history_entry (fst (last es)) (snd (last es))"
    using False by (simp add: last_map)
  finally have l: "last (predictions (submissions es s)) = history_entry (fst (last es)) (snd (last es))"
    unfolding p .
  have "length (drop (length ?h - 5) ?h) \<le> 5"
    unfolding length_drop by arith
  then have len: "length (predictions (submissions es s)) \<le> 5"
    unfolding p .
  from p l len show ?thesis unfolding Let_def by blast
qed

theorem history_rolling_witness:
  "map price (predictions (submissions
      [(\<lparr>name = str ''Audi A4'', year = str ''2019'', miles = str ''42000'', other = Map.empty\<rparr>,
        \<lparr>predicted_price = Num 1, success = True, resp_error = None\<rparr>),
       (\<lparr>name = str ''Audi A4'', year = str ''2019'', miles = str ''42000'', other = Map.empty\<rparr>,
        \<lparr>predicted_price = Num 2, success = True, resp_error = None\<rparr>),
       (\<lparr>name = str ''Audi A4'', year = str ''2019'', miles = str ''42000'', other = Map.empty\<rparr>,
        \<lparr>predicted_price = Num 3, success = True, resp_error = None\<rparr>),
       (\<lparr>name = str ''Audi A4'', year = str ''2019'', miles = str ''42000'', other = Map.empty\<rparr>,
        \<lparr>predicted_price = Num 4, success = True, resp_error = None\<rparr>),
       (\<lparr>name = str ''Audi A4'', year = str ''2019'', miles = str ''42000'', other = Map.empty\<rparr>,
        \<lparr>predicted_price = Num 5, success = True, resp_error = None\<rparr>),
       (\<lparr>name = str ''Audi A4'', year = str ''2019'', miles = str ''42000'', other = Map.empty\<rparr>,
        \<lparr>predicted_price = Num 6, success = True, resp_error = None\<rparr>)]
      (initial (str ''2024''))))
   = [Num 2, Num 3, Num 4, Num 5, Num 6]"
  using history_rolling [of
      "[(\<lparr>name = str ''Audi A4'', year = str ''2019'', miles = str ''42000'', other = Map.empty\<rparr>,
        \<lparr>predicted_price = Num 1, success = True, resp_error = None\<rparr>),
       (\<lparr>name = str ''Audi A4'', year = str ''2019'', miles = str ''42000'', other = Map.empty\<rparr>,
        \<lparr>predicted_price = Num 2, success = True, resp_error = None\<rparr>),
       (\<lparr>name = str ''Audi A4'', year = str ''2019'', miles = str ''42000'', other = Map.empty\<rparr>,
        \<lparr>predicted_price = Num 3, success = True, resp_error = None\<rparr>),
       (\<lparr>name = str ''Audi A4'', year = str ''2019'', miles = str ''42000'', other = Map.empty\<rparr>,
        \<lparr>predicted_price = Num 4, success = True, resp_error = None\<rparr>),
       (\<lparr>name = str ''Audi A4'', year = str ''2019'', miles = str ''42000'', other = Map.empty\<rparr>,
        \<lparr>predicted_price = Num 5, success = True, resp_error = None\<rparr>),
       (\<lparr>name = str ''Audi A4'', year = str ''2019'', miles = str ''42000'', other = Map.empty\<rparr>,
        \<lparr>predicted_price = Num 6, success = True, resp_error = None\<rparr>)]"
      "initial (str ''2024'')"]
  by (simp add: initial_def history_entry_def Let_def)

section \<open>Facts about the literals\<close>

lemma str_nonempty [simp]: "truthy_string (str (c # cs))"
  by (simp add: truthy_string_def str_def)

lemma year_ne: "str ''year'' \<noteq> str ''miles''" "str ''miles'' \<noteq> str ''year''"
  "str ''name'' \<noteq> str ''year''" "str ''name'' \<noteq> str ''miles''"
  by (simp_all add: str_def)

section \<open>The price shown after a successful answer\<close>

text \<open>
  After a successful answer the price is stored, and the results card shows the price line
  with the stored number printed by \<open>toLocaleString\<close> when the number is truthy; a
  falsy number (\<open>0\<close>, \<open>-0\<close>, \<open>NaN\<close>) is itself what the guard hands to the card.
\<close>

lemma success_display:
  "success d \<Longrightarrow>
   prediction (handleSubmit_settle fd (Resolved d) s) = Some (predicted_price d)
   \<and> results_card (render (handleSubmit_settle fd (Resolved d) s)) =
       (if truthy_number (predicted_price d)
        then Element \<lparr>price_line = [Lit (str ''Predicted Price: $''), LocaleString (predicted_price d)],
                      car_tile = name (formData s), year_tile = year (formData s),
                      miles_tile = [LocaleString (parseInt (miles (formData s))), Lit (str '' miles'')]\<rparr>
        else BareNumber (predicted_price d))"
  by (simp add: handleSubmit_settle_def render_def)

text \<open>
  C1. The claim is that after every successful answer the results card shows
  \<open>predicted_price\<close> printed with locale separators, whatever the price. For the
  price \<open>0\<close> the code stores the prediction, but the card holds the bare number \<open>0\<close>
  and no price line.
\<close>

theorem zero_price_display:
  "prediction (handleSubmit_settle
      \<lparr>name = str ''Audi A4'', year = str ''2019'', miles = str ''42000'', other = Map.empty\<rparr>
      (Resolved \<lparr>predicted_price = Num 0, success = True, resp_error = None\<rparr>)
      (handleSubmit_start (initial (str ''2024'')))) = Some (Num 0)
   \<and> results_card (render (handleSubmit_settle
      \<lparr>name = str ''Audi A4'', year = str ''2019'', miles = str ''42000'', other = Map.empty\<rparr>
      (Resolved \<lparr>predicted_price = Num 0, success = True, resp_error = None\<rparr>)
      (handleSubmit_start (initial (str ''2024''))))) = BareNumber (Num 0)"
  by (simp add: handleSubmit_settle_def render_def truthy_number_def)

section \<open>Failures\<close>

text \<open>
  C3, as stated, fails: the text shown after a \<open>/predict\<close> answer with
  \<open>success = false\<close> is the \<open>error\<close> field of the answer, so two answers give two
  texts.
\<close>

theorem static_message_counterexample:
  "error (handleSubmit_settle
      \<lparr>name = str ''Audi A4'', year = str ''2019'', miles = str ''42000'', other = Map.empty\<rparr>
      (Resolved \<lparr>predicted_price = Num 0, success = False, resp_error = Some (str ''Unknown car model'')\<rparr>)
      (initial (str ''2024''))) = Some (str ''Unknown car model'')
   \<and> error (handleSubmit_settle
      \<lparr>name = str ''Audi A4'', year = str ''2019'', miles = str ''42000'', other = Map.empty\<rparr>
      (Resolved \<lparr>predicted_price = Num 0, success = False, resp_error = Some (str ''Year out of range'')\<rparr>)
      (initial (str ''2024''))) = Some (str ''Year out of range'')
   \<and> str ''Unknown car model'' \<noteq> str ''Year out of range''"
  by (simp add: handleSubmit_settle_def error_or_def initial_def str_def truthy_string_def)

text \<open>
  C3, amended. After a rejected request each view shows one fixed text: "Failed to load car
  models" for the car search, "Failed to connect to prediction service" for \<open>/predict\<close>,
  "Failed to load model analytics data" for the analytics page. After a \<open>/predict\<close>
  answer with \<open>success = false\<close> the text is the answer's \<open>error\<close> field when that is
  a non-empty string, and "Prediction failed" otherwise.
\<close>

theorem failure_messages:
  "error (fetchCars_settle Rejected s) = Some (str ''Failed to load car models'')
   \<and> error (handleSubmit_settle fd Rejected s) = Some (str ''Failed to connect to prediction service'')
   \<and> an_error (fetchData_settle Rejected a) = Some (str ''Failed to load model analytics data'')
   \<and> (\<not> success d \<longrightarrow>
        error (handleSubmit_settle fd (Resolved d) s) =
          Some (case resp_error d of
                  None \<Rightarrow> str ''Prediction failed''
                | Some m \<Rightarrow> if m = [] then str ''Prediction failed'' else m))"
  by (auto simp: fetchCars_settle_def handleSubmit_settle_def fetchData_settle_def error_or_def
      truthy_string_def split: option.splits)

theorem failure_messages_witness:
  "error (handleSubmit_settle
      \<lparr>name = str ''Audi A4'', year = str ''2019'', miles = str ''42000'', other = Map.empty\<rparr>
      (Resolved \<lparr>predicted_price = Num 0, success = False, resp_error = None\<rparr>)
      (initial (str ''2024''))) = Some (str ''Prediction failed'')"
  using failure_messages [where d = "\<lparr>predicted_price = Num 0, success = False, resp_error = None\<rparr>"
      and fd = "\<lparr>name = str ''Audi A4'', year = str ''2019'', miles = str ''42000'', other = Map.empty\<rparr>"
      and s = "initial (str ''2024'')" and a = "an_initial :: unit Analytics"]
  by simp

text \<open>
  C6. After a rejected request the view renders its error banner: the dashboard renders the
  alert with the text set by the \<open>catch\<close> block (of \<open>handleSubmit\<close> and of
  \<open>fetchCars\<close>), and the analytics page renders the destructive alert in place of its
  content.
\<close>

theorem rejection_banner:
  "error_alert (render (handleSubmit_settle fd Rejected s))
     = Element (str ''Failed to connect to prediction service'')
   \<and> error_alert (render (fetchCars_settle Rejected s)) = Element (str ''Failed to load car models'')
   \<and> an_render (fetchData_settle Rejected a)
     = DestructiveAlert (str ''Failed to load model analytics data'')
   \<and> (net (predict_request (formData s)) = Rejected \<longrightarrow>
        error_alert (render (handleSubmit net s))
          = Element (str ''Failed to connect to prediction service''))
   \<and> ((fetchCars_url q = None \<or> (\<exists>u. fetchCars_url q = Some u \<and> cnet u = Rejected)) \<longrightarrow>
        error_alert (render (fetchCars cnet q s)) = Element (str ''Failed to load car models''))"
  by (auto simp: render_def handleSubmit_settle_def fetchCars_settle_def an_render_def
      fetchData_settle_def handleSubmit_def fetchCars_def Let_def)

theorem rejection_banner_witness:
  "error_alert (render (handleSubmit (\<lambda>r. Rejected) (initial (str ''2024''))))
     = Element (str ''Failed to connect to prediction service'')
   \<and> error_alert (render (fetchCars (\<lambda>u. Rejected) (str ''audi'') (initial (str ''2024''))))
     = Element (str ''Failed to load car models'')"
  using rejection_banner [where net = "\<lambda>r. Rejected" and s = "initial (str ''2024'')"
      and cnet = "\<lambda>u. Rejected" and q = "str ''audi''" and a = "an_initial :: unit Analytics"]
  by (cases "fetchCars_url (str ''audi'')") simp_all

text \<open>
  C9. A failed prediction leaves the results alone: after an answer with
  \<open>success = false\<close>, and after a rejected request, the state is the old state with only
  the error text and the loading flag set, so the current prediction and the history are
  unchanged; the start of the submission does not touch them either.
\<close>

theorem failure_atomic:
  assumes "r = Rejected \<or> (\<exists>d. r = Resolved d \<and> \<not> success d)"
  shows "(\<exists>m. handleSubmit_settle fd r s = s\<lparr>error := Some m, loading := False\<rparr>)
         \<and> prediction (handleSubmit_settle fd r s) = prediction s
         \<and> predictions (handleSubmit_settle fd r s) = predictions s
         \<and> prediction (handleSubmit_start s) = prediction s
         \<and> predictions (handleSubmit_start s) = predictions s
         \<and> (net (predict_request (formData s)) = r \<longrightarrow>
              (\<exists>m. handleSubmit net s = s\<lparr>error := Some m, loading := False\<rparr>))"
  using assms by (auto simp: handleSubmit_def handleSubmit_settle_def handleSubmit_start_def)

theorem failure_atomic_witness:
  "prediction (handleSubmit_settle
      \<lparr>name = str ''Audi A4'', year = str ''2019'', miles = str ''42000'', other = Map.empty\<rparr>
      (Resolved \<lparr>predicted_price = Num 9, success = False, resp_error = Some (str ''Unknown car'')\<rparr>)
      ((initial (str ''2024''))\<lparr>prediction := Some (Num 18500)\<rparr>)) = Some (Num 18500)"
  using failure_atomic [of "Resolved \<lparr>predicted_price = Num 9, success = False, resp_error = Some (str ''Unknown car'')\<rparr>"
      "\<lparr>name = str ''Audi A4'', year = str ''2019'', miles = str ''42000'', other = Map.empty\<rparr>"
      "(initial (str ''2024''))\<lparr>prediction := Some (Num 18500)\<rparr>"]
  by (simp add: initial_def)

section \<open>The form\<close>

text \<open>
  C4, as stated, fails: the miles input stores \<open>125\<close> for the entered value
  \<open>12.5\<close>.
\<close>

theorem stored_unchanged_counterexample:
  "miles (formData (handleInputChange (str ''miles'') (str ''12.5'') (initial (str ''2024''))))
     = str ''125''
   \<and> str ''125'' \<noteq> str ''12.5''"
  by (simp add: handleInputChange_def strip_non_digits_def initial_def str_def)

text \<open>
  C4, amended. The search box and the car select store the entered value unchanged. The
  year and miles inputs store the entered value with every character other than the digits
  \<open>0\<close> to \<open>9\<close> removed, which is the entered value exactly when it consists of digits
  only. \<open>handleInputChange\<close> stores the value of a target of any other name unchanged.
\<close>

theorem form_state_stored:
  "searchTerm (searchChange v s) = v
   \<and> name (formData (selectChange v s)) = v
   \<and> year (formData (handleInputChange (str ''year'') v s)) = strip_non_digits v
   \<and> miles (formData (handleInputChange (str ''miles'') v s)) = strip_non_digits v
   \<and> (strip_non_digits v = v \<longleftrightarrow> (\<forall>c \<in> set v. decimal_digit c))
   \<and> name (formData (handleInputChange (str ''name'') v s)) = v
   \<and> (nm \<noteq> str ''year'' \<and> nm \<noteq> str ''miles'' \<and> nm \<noteq> str ''name'' \<longrightarrow>
        other (formData (handleInputChange nm v s)) nm = Some v)"
  by (simp add: searchChange_def selectChange_def handleInputChange_def year_ne
      strip_non_digits_def decimal_digit_def filter_id_conv)

theorem form_state_stored_witness:
  "year (formData (handleInputChange (str ''year'') (str ''2019'') (initial (str ''2024'')))) = str ''2019''"
  using form_state_stored [where v = "str ''2019''" and s = "initial (str ''2024'')" and nm = "str ''colour''"]
  by (simp add: str_def decimal_digit_def)





section \<open>The car search\<close>

lemma unreserved_not_surrogate:
  "uriUnreserved c \<Longrightarrow> \<not> high_surrogate c \<and> \<not> low_surrogate c"
  by (auto simp: uriUnreserved_def high_surrogate_def low_surrogate_def word_le_nat_alt)

lemma high_not_low: "high_surrogate c \<Longrightarrow> \<not> low_surrogate c"
  by (auto simp: high_surrogate_def low_surrogate_def word_le_nat_alt)

lemma encode_wellformed: "(encodeURIComponent t \<noteq> None) = isWellFormed t"
proof (induction t rule: isWellFormed.induct)
  case 1
  then show ?case by simp
next
  case (2 c)
  then show ?case using unreserved_not_surrogate [of c] by auto
next
  case (3 c k rest)
  show ?case
  proof (cases "high_surrogate c")
    case True
    then have "\<not> uriUnreserved c" "\<not> low_surrogate c"
      using unreserved_not_surrogate [of c] high_not_low [of c] by auto
    with True 3 show ?thesis by simp
  next
    case False
    with 3 show ?thesis using unreserved_not_surrogate [of c] by auto
  qed
qed

text \<open>
  C7, as stated, fails: for a search term that is a lone surrogate, building the URL
  throws and no request is made.
\<close>

theorem lone_surrogate_counterexample:
  "truthy_string [0xD800] \<and> encodeURIComponent [0xD800] = None \<and> fetchCars_url [0xD800] = None"
  by (simp add: fetchCars_url_def truthy_string_def uriUnreserved_def low_surrogate_def
      high_surrogate_def)

text \<open>
  C7, amended. For the empty search term the request goes to
  \<open>http://localhost:5000/cars\<close> with no query string. For a non-empty term in which every
  surrogate has its partner it goes to the same address followed by \<open>?search=\<close> and the
  URI-encoded term. Whenever a request is made, \<open>?search=\<close> follows the address if and
  only if the term is non-empty. For a term with an unpaired surrogate no request is made
  and the view shows "Failed to load car models".
\<close>

theorem cars_url:
  "(q = [] \<longrightarrow> fetchCars_url q = Some (str ''http://localhost:5000/cars''))
   \<and> (q \<noteq> [] \<and> isWellFormed q \<longrightarrow>
        (\<exists>e. encodeURIComponent q = Some e
             \<and> fetchCars_url q = Some (str ''http://localhost:5000/cars'' @ str ''?search='' @ e)))
   \<and> (\<not> isWellFormed q \<longrightarrow>
        fetchCars_url q = None
        \<and> fetchCars net q s =
            s\<lparr>error := Some (str ''Failed to load car models''), availableCars := [],
              isSearching := False\<rparr>)
   \<and> (\<forall>u. fetchCars_url q = Some u \<longrightarrow>
        ((\<exists>e. u = str ''http://localhost:5000/cars'' @ str ''?search='' @ e) \<longleftrightarrow> q \<noteq> []))"
proof -
  have wf: "isWellFormed q \<Longrightarrow> \<exists>e. encodeURIComponent q = Some e"
    using encode_wellformed [of "q"] by auto
  have nwf: "\<not> isWellFormed q \<Longrightarrow> encodeURIComponent q = None \<and> q \<noteq> []"
    using encode_wellformed [of "q"] by (cases "q") auto
  show ?thesis
    using wf nwf
    by (auto simp: fetchCars_url_def truthy_string_def fetchCars_def fetchCars_settle_def Let_def str_def)
qed

theorem cars_url_witness:
  "fetchCars_url (str ''audi a4'') = Some (str ''http://localhost:5000/cars?search=audi%20a4'')"
  using cars_url [where q = "str ''audi a4''"]
  by (simp add: str_def uriUnreserved_def low_surrogate_def high_surrogate_def percent_escape_def
      utf8_octets_def hex_digit_def)

section \<open>The scatter chart\<close>

lemma map_idx_length [simp]: "length (map_idx f xs) = length xs"
  by (simp add: map_idx_def)

lemma map_idx_nth: "i < length xs \<Longrightarrow> map_idx f xs ! i = f (xs ! i) i"
  by (simp add: map_idx_def)

text \<open>
  C8. The scatter points pair the arrays by position: there are as many points as
  elements of \<open>actual\<close>, and point \<open>i\<close> holds \<open>actual[i]\<close> and \<open>predicted[i]\<close>
  (which is \<open>undefined\<close> beyond the end of \<open>predicted\<close>).
\<close>

theorem scatter_positional:
  "length (scatterPoints sd) = length (actual sd)
   \<and> (\<forall>i < length (actual sd).
        pt_actual (scatterPoints sd ! i) = actual sd ! i
        \<and> pt_predicted (scatterPoints sd ! i) = index (predicted sd) i
        \<and> (i < length (predicted sd) \<longrightarrow> pt_predicted (scatterPoints sd ! i) = Some (predicted sd ! i)))"
  by (simp add: scatterPoints_def map_idx_nth index_def)

theorem scatter_positional_witness:
  "scatterPoints \<lparr>actual = [Num 10, Num 20], predicted = [Num 11, Num 19], years = [], sd_miles = []\<rparr> ! 1
     = \<lparr>pt_actual = Num 20, pt_predicted = Some (Num 19)\<rparr>"
  using scatter_positional [of "\<lparr>actual = [Num 10, Num 20], predicted = [Num 11, Num 19], years = [], sd_miles = []\<rparr>"]
  by (auto simp: ScatterPoint.equality)

section \<open>The guards of the render\<close>




end
